theory Spec2Isabelle
  imports Main
begin

section \<open>Phone number parsing (src/lib/phoneNumber.ts)\<close>

text \<open>
  A shallow embedding of the phone number module. A TypeScript string is a sequence of
  code units; here it is a \<^typ>\<open>string\<close>, one \<^typ>\<open>char\<close> per code unit below 256.
  The first thing \<open>parsePhoneNumber\<close> does is to delete every code unit that is not an
  ASCII digit, \<open>+\<close>, \<open>x\<close> or \<open>X\<close>, so wider code units behave like any other deleted
  character.
\<close>

subsection \<open>The data model\<close>

record PhoneNumber =
  countryCode :: string
  nationalNumber :: string
  extension :: "string option"
  formatted :: string

datatype PhoneNumberParseResult =
  Success PhoneNumber
| Failure string

subsection \<open>String primitives used by the module\<close>

text \<open>The class \<open>\d\<close> of a regular expression without the unicode flag: \<open>0\<close> to \<open>9\<close>.\<close>

definition isDigit :: "char \<Rightarrow> bool" where
  "isDigit c = (c \<in> set ''0123456789'')"

text \<open>\<open>s.replace(/\D/g, '')\<close>\<close>

definition stripNonDigits :: "string \<Rightarrow> string" where
  "stripNonDigits s = filter isDigit s"

text \<open>
  The class \<open>[\d+x+]\<close> under the flag \<open>i\<close>: a digit, \<open>+\<close>, or \<open>x\<close> in either case.
\<close>

definition keptChar :: "char \<Rightarrow> bool" where
  "keptChar c = (isDigit c \<or> c = CHR ''+'' \<or> c = CHR ''x'' \<or> c = CHR ''X'')"

text \<open>\<open>input.replace(/[^\d+x+]/gi, '')\<close>\<close>

definition clean :: "string \<Rightarrow> string" where
  "clean s = filter keptChar s"

text \<open>
  \<open>toLowerCase\<close> on code units below 256: the letters \<open>A\<close> to \<open>Z\<close> and the
  Latin-1 capitals (192 to 222, without the multiplication sign 215) move up by 32.
\<close>

definition toLowerCaseChar :: "char \<Rightarrow> char" where
  "toLowerCaseChar c =
     (let n = (of_char c :: nat)
      in if (65 \<le> n \<and> n \<le> 90) \<or> (192 \<le> n \<and> n \<le> 222 \<and> n \<noteq> 215)
         then char_of (n + 32) else c)"

definition toLowerCase :: "string \<Rightarrow> string" where
  "toLowerCase s = map toLowerCaseChar s"

text \<open>\<open>s.startsWith(p)\<close>\<close>

definition startsWith :: "string \<Rightarrow> string \<Rightarrow> bool" where
  "startsWith s p = (take (length p) s = p)"

text \<open>\<open>s.includes(c)\<close> for a pattern \<open>c\<close> of one character.\<close>

definition includes_js :: "string \<Rightarrow> char \<Rightarrow> bool" where
  "includes_js s c = (c \<in> set s)"

text \<open>\<open>s.slice(a, b)\<close> and \<open>s.slice(a)\<close> for indices \<open>0 \<le> a \<le> b\<close>.\<close>

definition slice :: "string \<Rightarrow> nat \<Rightarrow> nat \<Rightarrow> string" where
  "slice s a b = take (b - a) (drop a s)"

definition sliceFrom :: "string \<Rightarrow> nat \<Rightarrow> string" where
  "sliceFrom s a = drop a s"

text \<open>
  \<open>s.split(c)\<close> for a separator of one character: the string is cut at every
  occurrence of \<open>c\<close>, and the result has one more element than \<open>s\<close> has occurrences
  of \<open>c\<close> (so \<open>''''.split(c)\<close> is the list of the empty string).
\<close>

fun split_js :: "char \<Rightarrow> string \<Rightarrow> string list" where
  "split_js c [] = [[]]"
| "split_js c (a # s) =
     (if a = c then [] # split_js c s
      else (case split_js c s of
              [] \<Rightarrow> [[a]]
            | p # ps \<Rightarrow> (a # p) # ps))"

text \<open>
  Array destructuring \<open>const [numberPart, extensionPart] = parts\<close>: an index beyond the
  array gives \<open>undefined\<close>, here \<open>None\<close>.
\<close>

definition element :: "string list \<Rightarrow> nat \<Rightarrow> string option" where
  "element parts i = (if i < length parts then Some (parts ! i) else None)"

text \<open>\<open>!v\<close> for a value that is a string or \<open>undefined\<close>.\<close>

definition falsy :: "string option \<Rightarrow> bool" where
  "falsy v = (case v of None \<Rightarrow> True | Some s \<Rightarrow> s = [])"

text \<open>The value of a destructured element once it is known not to be falsy.\<close>

definition str :: "string option \<Rightarrow> string" where
  "str v = (case v of None \<Rightarrow> [] | Some s \<Rightarrow> s)"

text \<open>\<open>chunks.join(sep)\<close>\<close>

fun join :: "string \<Rightarrow> string list \<Rightarrow> string" where
  "join sep [] = []"
| "join sep [p] = p"
| "join sep (p # q # ps) = p @ sep @ join sep (q # ps)"

subsection \<open>US and Canada\<close>

definition parseUSNumber :: "string \<Rightarrow> PhoneNumberParseResult" where
  "parseUSNumber input =
     (let digits = stripNonDigits input in
      if length digits \<noteq> 10
      then Failure ''US/Canada phone number must be exactly 10 digits''
      else
        let areaCode = slice digits 0 3;
            exchangeCode = slice digits 3 6;
            subscriberNumber = sliceFrom digits 6
        in if startsWith areaCode ''0'' \<or> startsWith areaCode ''1''
           then Failure ''Invalid area code''
           else if startsWith exchangeCode ''0'' \<or> startsWith exchangeCode ''1''
           then Failure ''Invalid exchange code''
           else Success \<lparr>countryCode = ''+1'',
                         nationalNumber = digits,
                         extension = None,
                         formatted = ''('' @ areaCode @ '') '' @ exchangeCode @ ''-''
                                     @ subscriberNumber\<rparr>)"

subsection \<open>International numbers\<close>

text \<open>
  The loop \<open>for (let i = 0; i < nationalNumber.length; i += 4) chunks.push(...)\<close>,
  with the array \<open>chunks\<close> passed along.
\<close>

function chunkLoop :: "nat \<Rightarrow> string \<Rightarrow> string list \<Rightarrow> string list" where
  "chunkLoop i nationalNumber' chunks =
     (if i < length nationalNumber'
      then chunkLoop (i + 4) nationalNumber' (chunks @ [slice nationalNumber' i (i + 4)])
      else chunks)"
  by pat_completeness auto
termination
  by (relation "measure (\<lambda>(i, nationalNumber', chunks). length nationalNumber' - i)") auto

declare chunkLoop.simps [simp del]

definition formatInternationalNumber :: "string \<Rightarrow> string \<Rightarrow> string" where
  "formatInternationalNumber countryCode' nationalNumber' =
     (if length nationalNumber' \<le> 10
      then ''+'' @ countryCode' @ '' '' @ nationalNumber'
      else ''+'' @ countryCode' @ '' '' @ join '' '' (chunkLoop 0 nationalNumber' []))"

definition parseInternationalNumber :: "string \<Rightarrow> PhoneNumberParseResult" where
  "parseInternationalNumber input =
     (let digits = stripNonDigits input in
      if length digits < 8 \<or> length digits > 15
      then Failure ''International phone number must be 8-15 digits''
      else
        let countryCodeLength =
              (if startsWith digits ''1'' then 1
               else if startsWith digits ''7'' then 1
               else if startsWith digits ''8'' then 1
               else if startsWith digits ''9'' then 1
               else 2 :: nat);
            countryCode = slice digits 0 countryCodeLength;
            nationalNumber = sliceFrom digits countryCodeLength
        in if length nationalNumber < 7
           then Failure ''National number too short after country code''
           else Success \<lparr>countryCode = ''+'' @ countryCode,
                         nationalNumber = nationalNumber,
                         extension = None,
                         formatted = formatInternationalNumber countryCode nationalNumber\<rparr>)"

subsection \<open>The entry point and the extension path\<close>

text \<open>
  \<open>numberPart\<close> and \<open>extensionPart\<close> of \<open>parseNumberWithExtension\<close>: the first two
  elements of the lower-cased input split at \<open>x\<close>.
\<close>

definition numberPart :: "string \<Rightarrow> string option" where
  "numberPart input = element (split_js CHR ''x'' (toLowerCase input)) 0"

definition extensionPart :: "string \<Rightarrow> string option" where
  "extensionPart input = element (split_js CHR ''x'' (toLowerCase input)) 1"

text \<open>
  The recursive call of \<open>parseNumberWithExtension\<close> is on a string shorter than its
  input: \<open>extensionPart\<close> exists only when the input has an \<open>x\<close>, and \<open>numberPart\<close>
  stops before it.
\<close>

lemma length_toLowerCase [simp]: "length (toLowerCase s) = length s"
  by (simp add: toLowerCase_def)

lemma split_js_not_Nil [simp]: "split_js c s \<noteq> []"
  by (induction s) (auto split: list.splits)

lemma split_js_hd: "hd (split_js c s) = takeWhile (\<lambda>a. a \<noteq> c) s"
  by (induction s) (auto split: list.splits)

lemma split_js_no_separator: "c \<notin> set s \<Longrightarrow> split_js c s = [s]"
  by (induction s) auto

lemma takeWhile_shorter:
  "x \<in> set xs \<Longrightarrow> \<not> P x \<Longrightarrow> length (takeWhile P xs) < length xs"
  by (induction xs) auto

lemma numberPart_eq:
  "numberPart input = Some (takeWhile (\<lambda>a. a \<noteq> CHR ''x'') (toLowerCase input))"
proof -
  have "0 < length (split_js CHR ''x'' (toLowerCase input))"
    by simp
  then show ?thesis
    by (simp add: numberPart_def element_def hd_conv_nth [symmetric] split_js_hd)
qed

lemma extensionPart_Some_includes:
  assumes "extensionPart input = Some e"
  shows "CHR ''x'' \<in> set (toLowerCase input)"
proof (rule ccontr)
  assume "CHR ''x'' \<notin> set (toLowerCase input)"
  then have "split_js CHR ''x'' (toLowerCase input) = [toLowerCase input]"
    by (rule split_js_no_separator)
  with assms show False
    by (simp add: extensionPart_def element_def)
qed

lemma numberPart_shorter:
  assumes "\<not> falsy (extensionPart input)"
  shows "length (str (numberPart input)) < length input"
proof -
  from assms obtain e where "extensionPart input = Some e"
    by (auto simp: falsy_def split: option.splits)
  then have "CHR ''x'' \<in> set (toLowerCase input)"
    by (rule extensionPart_Some_includes)
  then have "length (takeWhile (\<lambda>a. a \<noteq> CHR ''x'') (toLowerCase input))
               < length (toLowerCase input)"
    by (rule takeWhile_shorter) simp
  then show ?thesis
    by (simp add: numberPart_eq str_def)
qed

function parsePhoneNumber :: "string \<Rightarrow> PhoneNumberParseResult"
  and parseNumberWithExtension :: "string \<Rightarrow> PhoneNumberParseResult" where
  "parsePhoneNumber input =
     (let cleaned = clean input in
      if cleaned = [] \<or> length cleaned < 7
      then Failure ''Phone number must be at least 7 digits long''
      else if length cleaned > 15
      then Failure ''Phone number cannot exceed 15 digits''
      else if startsWith cleaned ''+''
      then parseInternationalNumber cleaned
      else if includes_js (toLowerCase cleaned) CHR ''x''
      then parseNumberWithExtension cleaned
      else if length cleaned = 10
      then parseUSNumber cleaned
      else if length cleaned = 11 \<and> startsWith cleaned ''1''
      then parseUSNumber (sliceFrom cleaned 1)
      else Failure ''Unable to parse phone number format'')"
| "parseNumberWithExtension input =
     (if falsy (extensionPart input) \<or> falsy (numberPart input)
      then Failure ''Invalid extension format''
      else
        let digits = stripNonDigits (str (numberPart input));
            extension = stripNonDigits (str (extensionPart input))
        in if length digits < 7 \<or> length digits > 15
           then Failure ''Phone number must be 7-15 digits''
           else if length extension = 0 \<or> length extension > 5
           then Failure ''Extension must be 1-5 digits''
           else
             (case parsePhoneNumber (str (numberPart input)) of
                Failure e \<Rightarrow> Failure e
              | Success phoneNumber \<Rightarrow>
                  Success (phoneNumber
                    \<lparr>extension := Some extension,
                     formatted := formatted phoneNumber @ '' ext. '' @ extension\<rparr>)))"
  by pat_completeness auto
termination
proof (relation "measure (\<lambda>a. case a of Inl input \<Rightarrow> 2 * length input + 1
                                    | Inr input \<Rightarrow> 2 * length input)")
  show "wf (measure (\<lambda>a. case a of Inl input \<Rightarrow> 2 * length input + 1
                                 | Inr input \<Rightarrow> 2 * length input))"
    by simp
next
  fix input cleaned
  assume "cleaned = clean input"
  then have "length cleaned \<le> length input"
    by (simp add: clean_def)
  then show "(Inr cleaned, Inl input)
               \<in> measure (\<lambda>a. case a of Inl input \<Rightarrow> 2 * length input + 1
                                      | Inr input \<Rightarrow> 2 * length input)"
    by simp
next
  fix input
  assume "\<not> (falsy (extensionPart input) \<or> falsy (numberPart input))"
  then have "length (str (numberPart input)) < length input"
    by (simp add: numberPart_shorter)
  then show "(Inl (str (numberPart input)), Inr input)
               \<in> measure (\<lambda>a. case a of Inl input \<Rightarrow> 2 * length input + 1
                                      | Inr input \<Rightarrow> 2 * length input)"
    by simp
qed

declare parsePhoneNumber.simps [simp del]
declare parseNumberWithExtension.simps [simp del]

definition isValidPhoneNumber :: "string \<Rightarrow> bool" where
  "isValidPhoneNumber input =
     (case parsePhoneNumber input of Success phoneNumber \<Rightarrow> True | Failure e \<Rightarrow> False)"

definition getPhoneNumber :: "string \<Rightarrow> PhoneNumber option" where
  "getPhoneNumber input =
     (case parsePhoneNumber input of
        Success phoneNumber \<Rightarrow> Some phoneNumber
      | Failure e \<Rightarrow> None)"

subsection \<open>The entry point with a bound on its nesting\<close>

text \<open>
  The same two functions with a budget for the nested activations of
  \<open>parsePhoneNumber\<close>: the budget drops by one each time \<open>parsePhoneNumber\<close> is
  entered, and an activation that finds the budget used up is \<open>None\<close>.
\<close>

fun parsePhoneNumber_depth :: "nat \<Rightarrow> string \<Rightarrow> PhoneNumberParseResult option"
  and parseNumberWithExtension_depth :: "nat \<Rightarrow> string \<Rightarrow> PhoneNumberParseResult option" where
  "parsePhoneNumber_depth 0 input = None"
| "parsePhoneNumber_depth (Suc n) input =
     (let cleaned = clean input in
      if cleaned = [] \<or> length cleaned < 7
      then Some (Failure ''Phone number must be at least 7 digits long'')
      else if length cleaned > 15
      then Some (Failure ''Phone number cannot exceed 15 digits'')
      else if startsWith cleaned ''+''
      then Some (parseInternationalNumber cleaned)
      else if includes_js (toLowerCase cleaned) CHR ''x''
      then parseNumberWithExtension_depth n cleaned
      else if length cleaned = 10
      then Some (parseUSNumber cleaned)
      else if length cleaned = 11 \<and> startsWith cleaned ''1''
      then Some (parseUSNumber (sliceFrom cleaned 1))
      else Some (Failure ''Unable to parse phone number format''))"
| "parseNumberWithExtension_depth n input =
     (if falsy (extensionPart input) \<or> falsy (numberPart input)
      then Some (Failure ''Invalid extension format'')
      else
        let digits = stripNonDigits (str (numberPart input));
            extension = stripNonDigits (str (extensionPart input))
        in if length digits < 7 \<or> length digits > 15
           then Some (Failure ''Phone number must be 7-15 digits'')
           else if length extension = 0 \<or> length extension > 5
           then Some (Failure ''Extension must be 1-5 digits'')
           else
             (case parsePhoneNumber_depth n (str (numberPart input)) of
                None \<Rightarrow> None
              | Some (Failure e) \<Rightarrow> Some (Failure e)
              | Some (Success phoneNumber) \<Rightarrow>
                  Some (Success (phoneNumber
                    \<lparr>extension := Some extension,
                     formatted := formatted phoneNumber @ '' ext. '' @ extension\<rparr>))))"

declare parsePhoneNumber_depth.simps [simp del]
declare parseNumberWithExtension_depth.simps [simp del]

subsection \<open>The split of the specification\<close>

text \<open>
  The specification's reading of the split, for comparison with \<open>numberPart\<close> and
  \<open>extensionPart\<close>: the lower-cased string is cut once, at its first \<open>x\<close>, into
  everything before it and everything after it.
\<close>

definition numberPart_spec :: "string \<Rightarrow> string" where
  "numberPart_spec input = takeWhile (\<lambda>a. a \<noteq> CHR ''x'') (toLowerCase input)"

definition extensionPart_spec :: "string \<Rightarrow> string" where
  "extensionPart_spec input = tl (dropWhile (\<lambda>a. a \<noteq> CHR ''x'') (toLowerCase input))"

section \<open>Properties\<close>

subsection \<open>Characters and cleaned strings\<close>

lemma isDigit_iff:
  "isDigit c \<longleftrightarrow> c = CHR ''0'' \<or> c = CHR ''1'' \<or> c = CHR ''2'' \<or> c = CHR ''3'' \<or> c = CHR ''4''
     \<or> c = CHR ''5'' \<or> c = CHR ''6'' \<or> c = CHR ''7'' \<or> c = CHR ''8'' \<or> c = CHR ''9''"
  by (simp add: isDigit_def)

lemma keptChar_iff: "keptChar c \<longleftrightarrow> c \<in> set ''0123456789+xX''"
  by (auto simp: keptChar_def isDigit_def)

lemma toLowerCaseChar_table:
  "\<forall>c\<in>set ''0123456789+xX''. toLowerCaseChar c = (if c = CHR ''X'' then CHR ''x'' else c)"
  by code_simp

lemma toLowerCaseChar_kept:
  "keptChar c \<Longrightarrow> toLowerCaseChar c = (if c = CHR ''X'' then CHR ''x'' else c)"
  using toLowerCaseChar_table unfolding keptChar_iff by blast

lemma toLowerCaseChar_plain:
  assumes "isDigit c \<or> c = CHR ''+''"
  shows "toLowerCaseChar c = c"
proof -
  from assms have "keptChar c"
    by (auto simp: keptChar_def)
  moreover from assms have "c \<noteq> CHR ''X''"
    by (auto simp: isDigit_def)
  ultimately show ?thesis
    by (simp add: toLowerCaseChar_kept)
qed

lemma toLowerCase_plain:
  "\<forall>c\<in>set s. isDigit c \<or> c = CHR ''+'' \<Longrightarrow> toLowerCase s = s"
  by (simp add: toLowerCase_def toLowerCaseChar_plain map_idI)

lemma clean_plain: "\<forall>c\<in>set s. isDigit c \<or> c = CHR ''+'' \<Longrightarrow> clean s = s"
  unfolding clean_def by (rule filter_True) (auto simp: keptChar_def)

lemma keptChar_clean: "c \<in> set (clean s) \<Longrightarrow> keptChar c"
  by (simp add: clean_def)

lemma startsWith_single: "startsWith s [c] \<longleftrightarrow> s \<noteq> [] \<and> hd s = c"
  by (cases s) (auto simp: startsWith_def)

lemma lowered_kept:
  assumes "\<forall>c\<in>set s. keptChar c" and "a \<in> set (toLowerCase s)"
  shows "isDigit a \<or> a = CHR ''+'' \<or> a = CHR ''x''"
proof -
  from assms(2) obtain c where c: "c \<in> set s" "a = toLowerCaseChar c"
    by (auto simp: toLowerCase_def)
  with assms(1) have "keptChar c" by blast
  with c show ?thesis
    by (auto simp: toLowerCaseChar_kept keptChar_def)
qed

lemma numberPart_spec_plain:
  assumes "\<forall>c\<in>set s. keptChar c"
  shows "\<forall>a\<in>set (numberPart_spec s). isDigit a \<or> a = CHR ''+''"
proof
  fix a assume "a \<in> set (numberPart_spec s)"
  then have "a \<in> set (toLowerCase s)" "a \<noteq> CHR ''x''"
    by (auto simp: numberPart_spec_def dest: set_takeWhileD)
  with lowered_kept [OF assms] show "isDigit a \<or> a = CHR ''+''"
    by blast
qed

lemma numberPart_spec_no_plus:
  assumes "\<forall>c\<in>set s. keptChar c" and "\<not> startsWith s ''+''"
  shows "\<not> startsWith (numberPart_spec s) ''+''"
proof (cases s)
  case Nil
  then show ?thesis by (simp add: numberPart_spec_def toLowerCase_def startsWith_def)
next
  case (Cons c t)
  with assms have "keptChar c" "c \<noteq> CHR ''+''"
    by (auto simp: startsWith_single)
  then have "toLowerCaseChar c \<noteq> CHR ''+''"
    by (auto simp: toLowerCaseChar_kept)
  with Cons show ?thesis
    by (auto simp: numberPart_spec_def toLowerCase_def startsWith_single)
qed

lemma str_numberPart: "str (numberPart s) = numberPart_spec s"
  by (simp add: numberPart_eq numberPart_spec_def str_def)

lemma plain_no_x:
  assumes "\<forall>c\<in>set t. isDigit c \<or> c = CHR ''+''"
  shows "\<not> includes_js t CHR ''x''"
proof
  assume "includes_js t CHR ''x''"
  with assms have "isDigit CHR ''x'' \<or> CHR ''x'' = CHR ''+''"
    unfolding includes_js_def by blast
  then show False
    by (simp add: isDigit_def)
qed

lemma parsePhoneNumber_plain:
  assumes "\<forall>c\<in>set t. isDigit c \<or> c = CHR ''+''" and "\<not> startsWith t ''+''"
  shows "parsePhoneNumber t =
           (if length t < 7 then Failure ''Phone number must be at least 7 digits long''
            else if length t > 15 then Failure ''Phone number cannot exceed 15 digits''
            else if length t = 10 then parseUSNumber t
            else if length t = 11 \<and> startsWith t ''1'' then parseUSNumber (sliceFrom t 1)
            else Failure ''Unable to parse phone number format'')"
proof -
  have c: "clean t = t" using assms(1) by (rule clean_plain)
  have l: "toLowerCase t = t" using assms(1) by (rule toLowerCase_plain)
  have x: "\<not> includes_js t CHR ''x''" using assms(1) by (rule plain_no_x)
  have n: "t = [] \<longleftrightarrow> length t = 0" by simp
  show ?thesis
    by (subst parsePhoneNumber.simps) (simp only: Let_def c l x assms(2) if_False n, simp)
qed

lemma parsePhoneNumber_depth_plain:
  assumes "\<forall>c\<in>set t. isDigit c \<or> c = CHR ''+''" and "\<not> startsWith t ''+''"
  shows "parsePhoneNumber_depth (Suc n) t = Some (parsePhoneNumber t)"
proof -
  have c: "clean t = t" using assms(1) by (rule clean_plain)
  have l: "toLowerCase t = t" using assms(1) by (rule toLowerCase_plain)
  have x: "\<not> includes_js t CHR ''x''" using assms(1) by (rule plain_no_x)
  show ?thesis
    by (subst parsePhoneNumber.simps, subst parsePhoneNumber_depth.simps(2))
       (simp only: Let_def c l x assms(2) if_False if_distrib [of Some] if_cancel)
qed

lemma parseUSNumber_Success:
  assumes "parseUSNumber t = Success p"
  shows "countryCode p = ''+1''" and "nationalNumber p = stripNonDigits t"
    and "extension p = None"
  using assms by (auto simp: parseUSNumber_def Let_def split: if_splits)

lemma parseInternationalNumber_Success:
  assumes "parseInternationalNumber t = Success p"
  shows "\<exists>n. countryCode p = ''+'' @ slice (stripNonDigits t) 0 n
             \<and> nationalNumber p = sliceFrom (stripNonDigits t) n
             \<and> extension p = None"
proof -
  define n :: nat where
    "n = (if startsWith (stripNonDigits t) ''1'' then 1
          else if startsWith (stripNonDigits t) ''7'' then 1
          else if startsWith (stripNonDigits t) ''8'' then 1
          else if startsWith (stripNonDigits t) ''9'' then 1
          else 2)"
  have "parseInternationalNumber t =
          (if length (stripNonDigits t) < 8 \<or> length (stripNonDigits t) > 15
           then Failure ''International phone number must be 8-15 digits''
           else if length (sliceFrom (stripNonDigits t) n) < 7
           then Failure ''National number too short after country code''
           else Success \<lparr>countryCode = ''+'' @ slice (stripNonDigits t) 0 n,
                         nationalNumber = sliceFrom (stripNonDigits t) n,
                         extension = None,
                         formatted = formatInternationalNumber (slice (stripNonDigits t) 0 n)
                                       (sliceFrom (stripNonDigits t) n)\<rparr>)"
    by (simp only: parseInternationalNumber_def Let_def n_def)
  with assms show ?thesis
    by (auto split: if_splits)
qed

subsection \<open>The routes of the entry point\<close>

lemma parsePhoneNumber_routes:
  "parsePhoneNumber input =
     (if length (clean input) < 7
      then Failure ''Phone number must be at least 7 digits long''
      else if length (clean input) > 15
      then Failure ''Phone number cannot exceed 15 digits''
      else if startsWith (clean input) ''+''
      then parseInternationalNumber (clean input)
      else if includes_js (toLowerCase (clean input)) CHR ''x''
      then parseNumberWithExtension (clean input)
      else if length (clean input) = 10
      then parseUSNumber (clean input)
      else if length (clean input) = 11 \<and> startsWith (clean input) ''1''
      then parseUSNumber (sliceFrom (clean input) 1)
      else Failure ''Unable to parse phone number format'')"
proof -
  have n: "clean input = [] \<or> length (clean input) < 7 \<longleftrightarrow> length (clean input) < 7"
    by auto
  show ?thesis
    by (subst parsePhoneNumber.simps) (simp only: Let_def n)
qed

lemma parsePhoneNumber_depth_routes:
  "parsePhoneNumber_depth (Suc n) input =
     (if length (clean input) < 7
      then Some (Failure ''Phone number must be at least 7 digits long'')
      else if length (clean input) > 15
      then Some (Failure ''Phone number cannot exceed 15 digits'')
      else if startsWith (clean input) ''+''
      then Some (parseInternationalNumber (clean input))
      else if includes_js (toLowerCase (clean input)) CHR ''x''
      then parseNumberWithExtension_depth n (clean input)
      else if length (clean input) = 10
      then Some (parseUSNumber (clean input))
      else if length (clean input) = 11 \<and> startsWith (clean input) ''1''
      then Some (parseUSNumber (sliceFrom (clean input) 1))
      else Some (Failure ''Unable to parse phone number format''))"
proof -
  have n: "clean input = [] \<or> length (clean input) < 7 \<longleftrightarrow> length (clean input) < 7"
    by auto
  show ?thesis
    by (subst parsePhoneNumber_depth.simps) (simp only: Let_def n)
qed

lemma split_js_separator:
  "c \<in> set s \<Longrightarrow>
     split_js c s = takeWhile (\<lambda>a. a \<noteq> c) s # split_js c (tl (dropWhile (\<lambda>a. a \<noteq> c) s))"
  by (induction s) (auto split: list.splits)

lemma extensionPart_eq:
  assumes "CHR ''x'' \<in> set (toLowerCase s)"
  shows "extensionPart s = Some (takeWhile (\<lambda>a. a \<noteq> CHR ''x'') (extensionPart_spec s))"
proof -
  let ?rest = "split_js CHR ''x'' (extensionPart_spec s)"
  have "split_js CHR ''x'' (toLowerCase s) = numberPart_spec s # ?rest"
    using split_js_separator [OF assms] by (simp add: numberPart_spec_def extensionPart_spec_def)
  moreover have "?rest \<noteq> []" by simp
  moreover have "hd ?rest = takeWhile (\<lambda>a. a \<noteq> CHR ''x'') (extensionPart_spec s)"
    by (rule split_js_hd)
  ultimately show ?thesis
    by (cases ?rest) (simp_all add: extensionPart_def element_def)
qed

lemma extensionPart_None:
  assumes "CHR ''x'' \<notin> set (toLowerCase s)"
  shows "extensionPart s = None"
  using split_js_no_separator [OF assms] by (simp add: extensionPart_def element_def)

text \<open>What \<open>parseNumberWithExtension\<close> does once its two parts are known.\<close>

lemma parseNumberWithExtension_parts:
  assumes "numberPart s = Some np" and "extensionPart s = Some ep"
  shows "parseNumberWithExtension s =
           (if ep = [] \<or> np = [] then Failure ''Invalid extension format''
            else if length (stripNonDigits np) < 7 \<or> length (stripNonDigits np) > 15
            then Failure ''Phone number must be 7-15 digits''
            else if length (stripNonDigits ep) = 0 \<or> length (stripNonDigits ep) > 5
            then Failure ''Extension must be 1-5 digits''
            else (case parsePhoneNumber np of
                    Failure e \<Rightarrow> Failure e
                  | Success phoneNumber \<Rightarrow>
                      Success (phoneNumber
                        \<lparr>extension := Some (stripNonDigits ep),
                         formatted := formatted phoneNumber @ '' ext. '' @ stripNonDigits ep\<rparr>)))"
  by (subst parseNumberWithExtension.simps) (simp only: assms Let_def falsy_def str_def option.case)

lemma parseNumberWithExtension_depth_parts:
  assumes "numberPart s = Some np" and "extensionPart s = Some ep"
  shows "parseNumberWithExtension_depth n s =
           (if ep = [] \<or> np = [] then Some (Failure ''Invalid extension format'')
            else if length (stripNonDigits np) < 7 \<or> length (stripNonDigits np) > 15
            then Some (Failure ''Phone number must be 7-15 digits'')
            else if length (stripNonDigits ep) = 0 \<or> length (stripNonDigits ep) > 5
            then Some (Failure ''Extension must be 1-5 digits'')
            else (case parsePhoneNumber_depth n np of
                    None \<Rightarrow> None
                  | Some (Failure e) \<Rightarrow> Some (Failure e)
                  | Some (Success phoneNumber) \<Rightarrow>
                      Some (Success (phoneNumber
                        \<lparr>extension := Some (stripNonDigits ep),
                         formatted := formatted phoneNumber @ '' ext. '' @ stripNonDigits ep\<rparr>))))"
  by (subst parseNumberWithExtension_depth.simps) (simp only: assms Let_def falsy_def str_def option.case)

lemma parseNumberWithExtension_no_x:
  assumes "CHR ''x'' \<notin> set (toLowerCase s)"
  shows "parseNumberWithExtension s = Failure ''Invalid extension format''"
  by (subst parseNumberWithExtension.simps)
     (simp add: extensionPart_None [OF assms] falsy_def)

lemma parseNumberWithExtension_depth_no_x:
  assumes "CHR ''x'' \<notin> set (toLowerCase s)"
  shows "parseNumberWithExtension_depth n s = Some (Failure ''Invalid extension format'')"
  by (subst parseNumberWithExtension_depth.simps)
     (simp add: extensionPart_None [OF assms] falsy_def)

lemma numberPart_Some: "numberPart s = Some (numberPart_spec s)"
  by (simp add: numberPart_eq numberPart_spec_def)

lemma parsePhoneNumber_plain_Success:
  assumes "\<forall>c\<in>set t. isDigit c \<or> c = CHR ''+''" and "\<not> startsWith t ''+''"
    and "parsePhoneNumber t = Success p"
  shows "countryCode p = ''+1'' \<and> extension p = None \<and> (\<forall>c\<in>set (nationalNumber p). isDigit c)"
proof -
  from assms have "parseUSNumber t = Success p \<or> parseUSNumber (sliceFrom t 1) = Success p"
    by (simp add: parsePhoneNumber_plain split: if_splits)
  then obtain u where "parseUSNumber u = Success p"
    by blast
  then show ?thesis
    by (simp add: parseUSNumber_Success stripNonDigits_def)
qed

subsection \<open>Plain numbers and the length guard\<close>

lemma digits_plain: "\<forall>d\<in>set s. isDigit d \<Longrightarrow> \<forall>c\<in>set s. isDigit c \<or> c = CHR ''+''"
  by blast

lemma digits_no_plus:
  assumes "\<forall>d\<in>set s. isDigit d"
  shows "\<not> startsWith s ''+''"
proof
  assume "startsWith s ''+''"
  then have "s \<noteq> []" "hd s = CHR ''+''"
    by (simp_all add: startsWith_single)
  with assms have "isDigit CHR ''+''"
    by (metis hd_in_set)
  then show False
    by (simp add: isDigit_def)
qed

lemma stripNonDigits_digits: "\<forall>d\<in>set s. isDigit d \<Longrightarrow> stripNonDigits s = s"
  unfolding stripNonDigits_def by (rule filter_True) blast

text \<open>
  Claim C1. A string of exactly ten ASCII digits \<open>d1 \<dots> d10\<close> is parsed as follows.
  If neither \<open>d1\<close> nor \<open>d4\<close> is \<open>0\<close> or \<open>1\<close>, the parse succeeds with country code
  \<open>+1\<close>, the ten digits as national number, no extension, and the formatted string
  \<open>(d1d2d3) d4d5d6-d7d8d9d10\<close>. If \<open>d1\<close> is \<open>0\<close> or \<open>1\<close> it fails with
  \<open>Invalid area code\<close>; if \<open>d1\<close> is valid and \<open>d4\<close> is \<open>0\<close> or \<open>1\<close> it fails with
  \<open>Invalid exchange code\<close>.
\<close>

theorem parse_ten_digits:
  assumes "s = [d1, d2, d3, d4, d5, d6, d7, d8, d9, d10]"
    and "\<forall>d\<in>set s. isDigit d"
  shows "(d1 \<notin> {CHR ''0'', CHR ''1''} \<and> d4 \<notin> {CHR ''0'', CHR ''1''} \<longrightarrow>
            parsePhoneNumber s =
              Success \<lparr>countryCode = ''+1'', nationalNumber = s, extension = None,
                       formatted = ''('' @ [d1, d2, d3] @ '') '' @ [d4, d5, d6] @ ''-''
                                   @ [d7, d8, d9, d10]\<rparr>)
       \<and> (d1 \<in> {CHR ''0'', CHR ''1''} \<longrightarrow> parsePhoneNumber s = Failure ''Invalid area code'')
       \<and> (d1 \<notin> {CHR ''0'', CHR ''1''} \<and> d4 \<in> {CHR ''0'', CHR ''1''} \<longrightarrow>
            parsePhoneNumber s = Failure ''Invalid exchange code'')"
proof -
  have len: "length s = 10"
    by (simp add: assms(1))
  have "parsePhoneNumber s = parseUSNumber s"
    using digits_plain [OF assms(2)] digits_no_plus [OF assms(2)] len
    by (simp add: parsePhoneNumber_plain)
  moreover have "parseUSNumber s =
      (if d1 = CHR ''0'' \<or> d1 = CHR ''1'' then Failure ''Invalid area code''
       else if d4 = CHR ''0'' \<or> d4 = CHR ''1'' then Failure ''Invalid exchange code''
       else Success \<lparr>countryCode = ''+1'', nationalNumber = s, extension = None,
                     formatted = ''('' @ [d1, d2, d3] @ '') '' @ [d4, d5, d6] @ ''-''
                                 @ [d7, d8, d9, d10]\<rparr>)"
    unfolding parseUSNumber_def stripNonDigits_digits [OF assms(2)] Let_def
    by (simp add: assms(1) slice_def sliceFrom_def startsWith_def)
  ultimately show ?thesis
    by simp
qed

theorem parse_ten_digits_witness:
  "list_all isDigit ''2345678901''
   \<and> parsePhoneNumber ''2345678901'' =
       Success \<lparr>countryCode = ''+1'', nationalNumber = ''2345678901'', extension = None,
                formatted = ''(234) 567-8901''\<rparr>
   \<and> parsePhoneNumber ''0551234567'' = Failure ''Invalid area code''
   \<and> parsePhoneNumber ''5551234567'' = Failure ''Invalid exchange code''"
proof -
  have a: "\<forall>d\<in>set ''2345678901''. isDigit d"
    and b: "\<forall>d\<in>set ''0551234567''. isDigit d"
    and c: "\<forall>d\<in>set ''5551234567''. isDigit d"
    by (simp_all add: isDigit_def)
  show ?thesis
    using a parse_ten_digits [OF refl a] parse_ten_digits [OF refl b]
      parse_ten_digits [OF refl c]
    by (simp add: list_all_iff)
qed

text \<open>
  Claim C6. For a string of exactly eleven ASCII digits that begins with \<open>1\<close>, the
  parse returns the same result as the parse of the string without its leading \<open>1\<close>.
\<close>

theorem parse_eleven_digits:
  assumes "length s = 11" and "\<forall>d\<in>set s. isDigit d" and "startsWith s ''1''"
  shows "parsePhoneNumber s = parsePhoneNumber (tl s)"
proof -
  have t: "\<forall>d\<in>set (tl s). isDigit d"
    using assms(2) by (metis list.sel(2) list.set_sel(2))
  have "parsePhoneNumber s = parseUSNumber (sliceFrom s 1)"
    using digits_plain [OF assms(2)] digits_no_plus [OF assms(2)] assms(1,3)
    by (simp add: parsePhoneNumber_plain)
  moreover have "parsePhoneNumber (tl s) = parseUSNumber (tl s)"
    using digits_plain [OF t] digits_no_plus [OF t] assms(1)
    by (simp add: parsePhoneNumber_plain)
  moreover have "sliceFrom s 1 = tl s"
    by (simp add: sliceFrom_def drop_Suc)
  ultimately show ?thesis
    by simp
qed

theorem parse_eleven_digits_witness:
  "length ''12345678901'' = 11 \<and> list_all isDigit ''12345678901''
   \<and> startsWith ''12345678901'' ''1''
   \<and> parsePhoneNumber ''12345678901'' = parsePhoneNumber ''2345678901''"
proof -
  have a: "length ''12345678901'' = 11" by simp
  have b: "\<forall>d\<in>set ''12345678901''. isDigit d" by (simp add: isDigit_def)
  have c: "startsWith ''12345678901'' ''1''" by (simp add: startsWith_def)
  show ?thesis
    using a b c parse_eleven_digits [OF a b c] by (simp add: list_all_iff)
qed

text \<open>
  Claim C7. When the cleaned string (the digits, \<open>+\<close>, \<open>x\<close> and \<open>X\<close> of the input) is
  empty or shorter than seven characters, the parse fails with
  \<open>Phone number must be at least 7 digits long\<close>. The length is that of the cleaned
  string, so \<open>+\<close> and \<open>x\<close> count: the test is on \<open>clean input\<close>, not on its digits.
\<close>

theorem parse_too_short:
  assumes "clean input = [] \<or> length (clean input) < 7"
  shows "parsePhoneNumber input = Failure ''Phone number must be at least 7 digits long''"
proof -
  from assms have "length (clean input) < 7"
    by auto
  then show ?thesis
    by (simp add: parsePhoneNumber_routes)
qed

theorem parse_too_short_witness:
  "clean ''(12) 34 x+'' = ''1234x+'' \<and> length (clean ''(12) 34 x+'') < 7
   \<and> parsePhoneNumber ''(12) 34 x+'' = Failure ''Phone number must be at least 7 digits long''"
proof -
  have a: "clean ''(12) 34 x+'' = ''1234x+''"
    by (simp add: clean_def keptChar_def isDigit_def)
  then have b: "length (clean ''(12) 34 x+'') < 7"
    by simp
  show ?thesis
    using a b parse_too_short [of "''(12) 34 x+''"] by simp
qed

text \<open>
  Claim C9. When the cleaned string has exactly ten characters, does not start with
  \<open>+\<close>, contains neither \<open>x\<close> nor \<open>X\<close>, and contains a \<open>+\<close>, it has fewer than ten
  digits and the parse fails with \<open>US/Canada phone number must be exactly 10 digits\<close>;
  the input \<open>555+123456\<close> is one such, so the message can be reached from the entry
  point.
\<close>

theorem parse_ten_with_plus:
  assumes "length (clean input) = 10" and "\<not> startsWith (clean input) ''+''"
    and "CHR ''x'' \<notin> set (clean input)" and "CHR ''X'' \<notin> set (clean input)"
    and "CHR ''+'' \<in> set (clean input)"
  shows "length (stripNonDigits (clean input)) < 10
       \<and> parsePhoneNumber input = Failure ''US/Canada phone number must be exactly 10 digits''"
proof -
  have plain: "\<forall>c\<in>set (clean input). isDigit c \<or> c = CHR ''+''"
    using assms(3,4) keptChar_clean [of _ input] by (auto simp: keptChar_def)
  have "\<not> includes_js (toLowerCase (clean input)) CHR ''x''"
    using plain by (simp add: toLowerCase_plain plain_no_x)
  then have "parsePhoneNumber input = parseUSNumber (clean input)"
    using assms(1,2) by (simp add: parsePhoneNumber_routes)
  moreover have "\<not> isDigit CHR ''+''"
    by (simp add: isDigit_def)
  with assms(5) have "length (filter isDigit (clean input)) < length (clean input)"
    by (rule length_filter_less)
  then have short: "length (stripNonDigits (clean input)) < 10"
    by (simp add: stripNonDigits_def assms(1))
  ultimately show ?thesis
    by (simp add: parseUSNumber_def)
qed

theorem parse_ten_with_plus_witness:
  "clean ''555+123456'' = ''555+123456''
   \<and> parsePhoneNumber ''555+123456'' = Failure ''US/Canada phone number must be exactly 10 digits''"
proof -
  have a: "clean ''555+123456'' = ''555+123456''"
    by (simp add: clean_def keptChar_def isDigit_def)
  have "length (clean ''555+123456'') = 10" "\<not> startsWith (clean ''555+123456'') ''+''"
    "CHR ''x'' \<notin> set (clean ''555+123456'')" "CHR ''X'' \<notin> set (clean ''555+123456'')"
    "CHR ''+'' \<in> set (clean ''555+123456'')"
    by (simp_all add: a startsWith_def)
  from parse_ten_with_plus [OF this] a show ?thesis
    by simp
qed

subsection \<open>International numbers\<close>

lemma parseInternationalNumber_split:
  assumes "digits = stripNonDigits t" and "8 \<le> length digits" and "length digits \<le> 15"
    and "cc = (if hd digits \<in> {CHR ''1'', CHR ''7'', CHR ''8'', CHR ''9''}
               then take 1 digits else take 2 digits)"
    and "nn = drop (length cc) digits"
  shows "parseInternationalNumber t =
           (if length nn < 7 then Failure ''National number too short after country code''
            else Success \<lparr>countryCode = ''+'' @ cc, nationalNumber = nn, extension = None,
                          formatted = formatInternationalNumber cc nn\<rparr>)"
proof -
  define n :: nat where
    "n = (if startsWith digits ''1'' then 1
          else if startsWith digits ''7'' then 1
          else if startsWith digits ''8'' then 1
          else if startsWith digits ''9'' then 1
          else 2)"
  have ne: "digits \<noteq> []"
    using assms(2) by auto
  have n: "n = (if hd digits \<in> {CHR ''1'', CHR ''7'', CHR ''8'', CHR ''9''} then 1 else 2)"
    by (simp add: n_def startsWith_single ne)
  have cc: "slice digits 0 n = cc"
    by (simp add: slice_def assms(4) n)
  have "length cc = n"
    using assms(2) by (simp add: assms(4) n)
  then have nn: "sliceFrom digits n = nn"
    by (simp add: sliceFrom_def assms(5))
  have "parseInternationalNumber t =
          (if length digits < 8 \<or> length digits > 15
           then Failure ''International phone number must be 8-15 digits''
           else if length (sliceFrom digits n) < 7
           then Failure ''National number too short after country code''
           else Success \<lparr>countryCode = ''+'' @ slice digits 0 n,
                         nationalNumber = sliceFrom digits n,
                         extension = None,
                         formatted = formatInternationalNumber (slice digits 0 n)
                                       (sliceFrom digits n)\<rparr>)"
    by (simp only: parseInternationalNumber_def Let_def n_def assms(1))
  then show ?thesis
    using assms(2,3) by (simp add: cc nn)
qed

lemma parseInternationalNumber_range:
  assumes "\<not> (8 \<le> length (stripNonDigits t) \<and> length (stripNonDigits t) \<le> 15)"
  shows "parseInternationalNumber t = Failure ''International phone number must be 8-15 digits''"
proof -
  from assms have "length (stripNonDigits t) < 8 \<or> length (stripNonDigits t) > 15"
    by auto
  then show ?thesis
    by (simp only: parseInternationalNumber_def Let_def if_True)
qed

text \<open>
  Claim C3, amended. Let the cleaned string start with \<open>+\<close> and have between 7 and 15
  characters. When it has between 8 and 15 digits, the country code is \<open>+\<close> followed
  by the first digit if that digit is 1, 7, 8 or 9, and by the first two digits otherwise,
  and the national number is the remaining digits: with fewer than seven digits remaining
  the parse fails with \<open>National number too short after country code\<close>, and otherwise
  it succeeds with exactly that country code and national number. When the number of
  digits is outside 8 to 15 the parse fails with
  \<open>International phone number must be 8-15 digits\<close>.
\<close>

theorem parse_international:
  assumes "cleaned = clean input" and "7 \<le> length cleaned" and "length cleaned \<le> 15"
    and "startsWith cleaned ''+''"
    and "digits = stripNonDigits cleaned"
    and "cc = (if hd digits \<in> {CHR ''1'', CHR ''7'', CHR ''8'', CHR ''9''}
               then take 1 digits else take 2 digits)"
    and "nn = drop (length cc) digits"
  shows "(8 \<le> length digits \<and> length digits \<le> 15 \<and> length nn < 7 \<longrightarrow>
            parsePhoneNumber input = Failure ''National number too short after country code'')
       \<and> (8 \<le> length digits \<and> length digits \<le> 15 \<and> 7 \<le> length nn \<longrightarrow>
            (\<exists>p. parsePhoneNumber input = Success p
                 \<and> countryCode p = ''+'' @ cc \<and> nationalNumber p = nn))
       \<and> (\<not> (8 \<le> length digits \<and> length digits \<le> 15) \<longrightarrow>
            parsePhoneNumber input = Failure ''International phone number must be 8-15 digits'')"
proof -
  have route: "parsePhoneNumber input = parseInternationalNumber cleaned"
    using assms(2,3,4) by (simp add: parsePhoneNumber_routes assms(1) [symmetric])
  show ?thesis
  proof (cases "8 \<le> length digits \<and> length digits \<le> 15")
    case True
    then have "parseInternationalNumber cleaned =
           (if length nn < 7 then Failure ''National number too short after country code''
            else Success \<lparr>countryCode = ''+'' @ cc, nationalNumber = nn, extension = None,
                          formatted = formatInternationalNumber cc nn\<rparr>)"
      using assms(5,6,7) by (intro parseInternationalNumber_split) simp_all
    with True show ?thesis
      by (simp add: route)
  next
    case False
    then have "parseInternationalNumber cleaned
                 = Failure ''International phone number must be 8-15 digits''"
      unfolding assms(5) by (rule parseInternationalNumber_range)
    with False show ?thesis
      by (auto simp: route)
  qed
qed


theorem parse_international_witness:
  "parsePhoneNumber ''+44 20 7123 4567'' =
     Success \<lparr>countryCode = ''+44'', nationalNumber = ''2071234567'', extension = None,
              formatted = ''+44 2071234567''\<rparr>
   \<and> parsePhoneNumber ''+7 (912) 345-67-89'' =
     Success \<lparr>countryCode = ''+7'', nationalNumber = ''9123456789'', extension = None,
              formatted = ''+7 9123456789''\<rparr>
   \<and> parsePhoneNumber ''+44 123456'' = Failure ''National number too short after country code''
   \<and> parsePhoneNumber ''+1 23456'' = Failure ''International phone number must be 8-15 digits''"
proof -
  have a: "clean ''+44 20 7123 4567'' = ''+442071234567''"
    and b: "clean ''+7 (912) 345-67-89'' = ''+79123456789''"
    and c: "clean ''+44 123456'' = ''+44123456''"
    and d: "clean ''+1 23456'' = ''+123456''"
    by (simp_all add: clean_def keptChar_def isDigit_def)
  have a': "stripNonDigits ''+442071234567'' = ''442071234567''"
    and b': "stripNonDigits ''+79123456789'' = ''79123456789''"
    and c': "stripNonDigits ''+44123456'' = ''44123456''"
    and d': "stripNonDigits ''+123456'' = ''123456''"
    by (simp_all add: stripNonDigits_def isDigit_def)
  have "\<exists>p. parsePhoneNumber ''+44 20 7123 4567'' = Success p
          \<and> countryCode p = ''+44'' \<and> nationalNumber p = ''2071234567''"
    using parse_international [OF a [symmetric] _ _ _ a' [symmetric] refl refl]
    by (simp add: startsWith_def)
  moreover have "\<exists>p. parsePhoneNumber ''+7 (912) 345-67-89'' = Success p
          \<and> countryCode p = ''+7'' \<and> nationalNumber p = ''9123456789''"
    using parse_international [OF b [symmetric] _ _ _ b' [symmetric] refl refl]
    by (simp add: startsWith_def)
  moreover have "parsePhoneNumber ''+44 123456''
                   = Failure ''National number too short after country code''"
    using parse_international [OF c [symmetric] _ _ _ c' [symmetric] refl refl]
    by (simp add: startsWith_def)
  moreover have "parsePhoneNumber ''+1 23456''
                   = Failure ''International phone number must be 8-15 digits''"
    using parse_international [OF d [symmetric] _ _ _ d' [symmetric] refl refl]
    by (simp add: startsWith_def)
  moreover have "parsePhoneNumber ''+44 20 7123 4567'' =
     Success \<lparr>countryCode = ''+44'', nationalNumber = ''2071234567'', extension = None,
              formatted = ''+44 2071234567''\<rparr>"
    by code_simp
  moreover have "parsePhoneNumber ''+7 (912) 345-67-89'' =
     Success \<lparr>countryCode = ''+7'', nationalNumber = ''9123456789'', extension = None,
              formatted = ''+7 9123456789''\<rparr>"
    by code_simp
  ultimately show ?thesis
    by simp
qed

theorem parse_international_counterexample:
  "startsWith (clean ''+123456789012345'') ''+''
   \<and> length (stripNonDigits (clean ''+123456789012345'')) = 15
   \<and> parsePhoneNumber ''+123456789012345'' = Failure ''Phone number cannot exceed 15 digits''
   \<and> startsWith (clean ''+12345'') ''+''
   \<and> length (stripNonDigits (clean ''+12345'')) = 5
   \<and> parsePhoneNumber ''+12345'' = Failure ''Phone number must be at least 7 digits long''"
  by code_simp

subsection \<open>Extensions\<close>

lemma includes_lowered: "includes_js (toLowerCase s) CHR ''x'' \<longleftrightarrow> CHR ''x'' \<in> set (toLowerCase s)"
  by (simp add: includes_js_def)

text \<open>The extension path, seen from the entry point.\<close>

lemma parsePhoneNumber_extension_route:
  assumes "7 \<le> length (clean input)" and "length (clean input) \<le> 15"
    and "\<not> startsWith (clean input) ''+''"
    and "includes_js (toLowerCase (clean input)) CHR ''x''"
  shows "parsePhoneNumber input = parseNumberWithExtension (clean input)"
  using assms by (simp add: parsePhoneNumber_routes)

text \<open>
  Claim C2, amended. Let the input be routed to the extension path: its cleaned string
  has between 7 and 15 characters, does not start with \<open>+\<close> and contains an \<open>x\<close> once
  lower-cased. The lower-cased cleaned string is split at every \<open>x\<close>: \<open>numberPart\<close> is
  everything before the first \<open>x\<close>, and \<open>extensionPart\<close> is the text between the first
  \<open>x\<close> and the next one (or the end of the string, when there is no other \<open>x\<close>);
  what follows a second \<open>x\<close> is dropped. If either part is empty the parse fails with
  \<open>Invalid extension format\<close>, and otherwise the extension of a successful parse is
  that \<open>extensionPart\<close> without its non-digits.
\<close>

theorem extension_split:
  assumes "cleaned = clean input" and "7 \<le> length cleaned" and "length cleaned \<le> 15"
    and "\<not> startsWith cleaned ''+''"
    and "includes_js (toLowerCase cleaned) CHR ''x''"
    and "between = takeWhile (\<lambda>a. a \<noteq> CHR ''x'') (extensionPart_spec cleaned)"
  shows "numberPart cleaned = Some (numberPart_spec cleaned)
       \<and> extensionPart cleaned = Some between
       \<and> (numberPart_spec cleaned = [] \<or> between = [] \<longrightarrow>
            parsePhoneNumber input = Failure ''Invalid extension format'')
       \<and> (numberPart_spec cleaned \<noteq> [] \<and> between \<noteq> [] \<longrightarrow>
            (\<forall>p. parsePhoneNumber input = Success p \<longrightarrow>
                 extension p = Some (stripNonDigits between)))"
proof -
  have route: "parsePhoneNumber input = parseNumberWithExtension cleaned"
    unfolding assms(1) using assms(2-5) unfolding assms(1)
    by (rule parsePhoneNumber_extension_route)
  have np: "numberPart cleaned = Some (numberPart_spec cleaned)"
    by (rule numberPart_Some)
  have ep: "extensionPart cleaned = Some between"
    using assms(5) by (simp add: extensionPart_eq includes_lowered assms(6))
  note parts = parseNumberWithExtension_parts [OF np ep]
  have empty: "numberPart_spec cleaned = [] \<or> between = [] \<longrightarrow>
                 parsePhoneNumber input = Failure ''Invalid extension format''"
    by (auto simp: route parts)
  have full: "numberPart_spec cleaned \<noteq> [] \<and> between \<noteq> [] \<longrightarrow>
            (\<forall>p. parsePhoneNumber input = Success p \<longrightarrow>
                 extension p = Some (stripNonDigits between))"
    by (auto simp: route parts split: if_splits PhoneNumberParseResult.splits)
  from np ep empty full show ?thesis
    by blast
qed

theorem extension_split_witness:
  "parsePhoneNumber ''555-234-5678 x1x2'' =
     Success \<lparr>countryCode = ''+1'', nationalNumber = ''5552345678'', extension = Some ''1'',
              formatted = ''(555) 234-5678 ext. 1''\<rparr>
   \<and> parsePhoneNumber ''555-234-5678 xx12'' = Failure ''Invalid extension format''"
proof -
  have a: "clean ''555-234-5678 x1x2'' = ''5552345678x1x2''"
    and b: "clean ''555-234-5678 xx12'' = ''5552345678xx12''"
    by (simp_all add: clean_def keptChar_def isDigit_def)
  have la: "toLowerCase ''5552345678x1x2'' = ''5552345678x1x2''"
    and lb: "toLowerCase ''5552345678xx12'' = ''5552345678xx12''"
    by code_simp+
  have "\<forall>p. parsePhoneNumber ''555-234-5678 x1x2'' = Success p \<longrightarrow> extension p = Some ''1''"
    using extension_split [OF a [symmetric] _ _ _ _ refl]
    by (simp add: startsWith_def includes_js_def la extensionPart_spec_def numberPart_spec_def
          stripNonDigits_def isDigit_def)
  moreover have "parsePhoneNumber ''555-234-5678 xx12'' = Failure ''Invalid extension format''"
    using extension_split [OF b [symmetric] _ _ _ _ refl]
    by (simp add: startsWith_def includes_js_def lb extensionPart_spec_def numberPart_spec_def)
  moreover have "parsePhoneNumber ''555-234-5678 x1x2'' =
     Success \<lparr>countryCode = ''+1'', nationalNumber = ''5552345678'', extension = Some ''1'',
              formatted = ''(555) 234-5678 ext. 1''\<rparr>"
    by code_simp
  ultimately show ?thesis
    by simp
qed

theorem extension_split_counterexample:
  "\<not> startsWith (clean ''5552345678x1x2'') ''+''
   \<and> includes_js (toLowerCase (clean ''5552345678x1x2'')) CHR ''x''
   \<and> numberPart_spec (clean ''5552345678x1x2'') = ''5552345678''
   \<and> extensionPart_spec (clean ''5552345678x1x2'') = ''1x2''
   \<and> stripNonDigits (extensionPart_spec (clean ''5552345678x1x2'')) = ''12''
   \<and> parsePhoneNumber ''5552345678x1x2'' =
       Success \<lparr>countryCode = ''+1'', nationalNumber = ''5552345678'', extension = Some ''1'',
                formatted = ''(555) 234-5678 ext. 1''\<rparr>
   \<and> extensionPart_spec (clean ''5552345678xx12'') = ''x12''
   \<and> parsePhoneNumber ''5552345678xx12'' = Failure ''Invalid extension format''"
  by code_simp

text \<open>
  Claim C4. On the extension path, once the two parts are non-empty, the part before the
  \<open>x\<close> has 7 to 15 digits and the extension has 1 to 5 digits, the part before the \<open>x\<close>
  is parsed again by \<open>parsePhoneNumber\<close>. If that parse fails, its failure is the
  result, message unchanged; if it succeeds, the result is its phone number with the
  extension set and \<open> ext. \<close> followed by the extension appended to the formatted
  string.
\<close>

theorem extension_reparse:
  assumes "cleaned = clean input" and "7 \<le> length cleaned" and "length cleaned \<le> 15"
    and "\<not> startsWith cleaned ''+''"
    and "includes_js (toLowerCase cleaned) CHR ''x''"
    and "numberPart cleaned = Some np" and "extensionPart cleaned = Some ep"
    and "np \<noteq> []" and "ep \<noteq> []"
    and "7 \<le> length (stripNonDigits np)" and "length (stripNonDigits np) \<le> 15"
    and "ext = stripNonDigits ep" and "1 \<le> length ext" and "length ext \<le> 5"
  shows "(\<forall>e. parsePhoneNumber np = Failure e \<longrightarrow> parsePhoneNumber input = Failure e)
       \<and> (\<forall>p. parsePhoneNumber np = Success p \<longrightarrow>
              parsePhoneNumber input =
                Success (p\<lparr>extension := Some ext,
                           formatted := formatted p @ '' ext. '' @ ext\<rparr>))"
proof -
  have route: "parsePhoneNumber input = parseNumberWithExtension cleaned"
    unfolding assms(1) using assms(2-5) unfolding assms(1)
    by (rule parsePhoneNumber_extension_route)
  have "parseNumberWithExtension cleaned =
          (case parsePhoneNumber np of
             Failure e \<Rightarrow> Failure e
           | Success p \<Rightarrow>
               Success (p\<lparr>extension := Some ext,
                          formatted := formatted p @ '' ext. '' @ ext\<rparr>))"
    using assms(8-11,13,14) unfolding assms(12)
    by (auto simp: parseNumberWithExtension_parts [OF assms(6,7)])
  then show ?thesis
    by (simp add: route)
qed


theorem extension_reparse_witness:
  "parsePhoneNumber ''5552345678'' =
     Success \<lparr>countryCode = ''+1'', nationalNumber = ''5552345678'', extension = None,
              formatted = ''(555) 234-5678''\<rparr>
   \<and> parsePhoneNumber ''555-234-5678 X 89'' =
     Success \<lparr>countryCode = ''+1'', nationalNumber = ''5552345678'', extension = Some ''89'',
              formatted = ''(555) 234-5678 ext. 89''\<rparr>
   \<and> parsePhoneNumber ''5551234567'' = Failure ''Invalid exchange code''
   \<and> parsePhoneNumber ''555-123-4567x89'' = Failure ''Invalid exchange code''"
proof -
  have a: "clean ''555-234-5678 X 89'' = ''5552345678X89''"
    and b: "clean ''555-123-4567x89'' = ''5551234567x89''"
    by (simp_all add: clean_def keptChar_def isDigit_def)
  have la: "toLowerCase ''5552345678X89'' = ''5552345678x89''"
    and lb: "toLowerCase ''5551234567x89'' = ''5551234567x89''"
    by code_simp+
  have na: "numberPart ''5552345678X89'' = Some ''5552345678''"
    and ea: "extensionPart ''5552345678X89'' = Some ''89''"
    and nb: "numberPart ''5551234567x89'' = Some ''5551234567''"
    and eb: "extensionPart ''5551234567x89'' = Some ''89''"
    by (simp_all add: numberPart_def extensionPart_def element_def la lb)
  have d: "stripNonDigits ''5552345678'' = ''5552345678''"
    "stripNonDigits ''5551234567'' = ''5551234567''" "stripNonDigits ''89'' = ''89''"
    by (simp_all add: stripNonDigits_def isDigit_def)
  have ok: "parsePhoneNumber ''5552345678'' =
     Success \<lparr>countryCode = ''+1'', nationalNumber = ''5552345678'', extension = None,
              formatted = ''(555) 234-5678''\<rparr>"
    by code_simp
  have bad: "parsePhoneNumber ''5551234567'' = Failure ''Invalid exchange code''"
    by code_simp
  have "parsePhoneNumber ''555-234-5678 X 89'' =
     Success \<lparr>countryCode = ''+1'', nationalNumber = ''5552345678'', extension = Some ''89'',
              formatted = ''(555) 234-5678 ext. 89''\<rparr>"
    using extension_reparse [OF a [symmetric] _ _ _ _ na ea _ _ _ _ refl]
    by (simp add: startsWith_def includes_js_def la d ok)
  moreover have "parsePhoneNumber ''555-123-4567x89'' = Failure ''Invalid exchange code''"
    using extension_reparse [OF b [symmetric] _ _ _ _ nb eb _ _ _ _ refl]
    by (simp add: startsWith_def includes_js_def lb d bad)
  ultimately show ?thesis
    using ok bad by simp
qed

text \<open>What a successful extension parse looks like.\<close>

lemma parseNumberWithExtension_Success:
  assumes "parseNumberWithExtension s = Success p"
  shows "\<exists>p0 ep. parsePhoneNumber (numberPart_spec s) = Success p0
            \<and> p = p0\<lparr>extension := Some (stripNonDigits ep),
                       formatted := formatted p0 @ '' ext. '' @ stripNonDigits ep\<rparr>
            \<and> 1 \<le> length (stripNonDigits ep) \<and> length (stripNonDigits ep) \<le> 5"
proof (cases "CHR ''x'' \<in> set (toLowerCase s)")
  case False
  with assms show ?thesis
    by (simp add: parseNumberWithExtension_no_x)
next
  case True
  then obtain ep where ep: "extensionPart s = Some ep"
    by (simp add: extensionPart_eq)
  let ?ext = "stripNonDigits ep"
  from assms have checks: "1 \<le> length ?ext" "length ?ext \<le> 5"
    and result: "(case parsePhoneNumber (numberPart_spec s) of
                    Failure e \<Rightarrow> Failure e
                  | Success q \<Rightarrow>
                      Success (q\<lparr>extension := Some ?ext,
                                 formatted := formatted q @ '' ext. '' @ ?ext\<rparr>)) = Success p"
    unfolding parseNumberWithExtension_parts [OF numberPart_Some ep]
    by (auto simp: Suc_le_eq split: if_splits)
  from result obtain p0 where "parsePhoneNumber (numberPart_spec s) = Success p0"
    and "p = p0\<lparr>extension := Some ?ext, formatted := formatted p0 @ '' ext. '' @ ?ext\<rparr>"
    by (auto split: PhoneNumberParseResult.splits)
  with checks show ?thesis
    by blast
qed

lemma clean_kept: "\<forall>c\<in>set (clean input). keptChar c"
  by (simp add: clean_def)

lemma parsePhoneNumber_Success_cases:
  assumes "parsePhoneNumber input = Success p"
  obtains (international) "parseInternationalNumber (clean input) = Success p"
  | (us) u where "parseUSNumber u = Success p"
  | (extension) p0 ep where "countryCode p0 = ''+1''"
      and "\<forall>c\<in>set (nationalNumber p0). isDigit c"
      and "p = p0\<lparr>extension := Some (stripNonDigits ep),
                   formatted := formatted p0 @ '' ext. '' @ stripNonDigits ep\<rparr>"
      and "1 \<le> length (stripNonDigits ep)" and "length (stripNonDigits ep) \<le> 5"
proof -
  consider "parseInternationalNumber (clean input) = Success p"
    | "\<not> startsWith (clean input) ''+''" "parseNumberWithExtension (clean input) = Success p"
    | "parseUSNumber (clean input) = Success p"
    | "parseUSNumber (sliceFrom (clean input) 1) = Success p"
    using assms unfolding parsePhoneNumber_routes by (auto split: if_splits)
  then show thesis
  proof cases
    case 1
    then show thesis by (rule international)
  next
    case 2
    from parseNumberWithExtension_Success [OF 2(2)] obtain p0 ep
      where p0: "parsePhoneNumber (numberPart_spec (clean input)) = Success p0"
        and p: "p = p0\<lparr>extension := Some (stripNonDigits ep),
                       formatted := formatted p0 @ '' ext. '' @ stripNonDigits ep\<rparr>"
        and len: "1 \<le> length (stripNonDigits ep)" "length (stripNonDigits ep) \<le> 5"
      by blast
    have "countryCode p0 = ''+1'' \<and> extension p0 = None
            \<and> (\<forall>c\<in>set (nationalNumber p0). isDigit c)"
      using numberPart_spec_plain [OF clean_kept] numberPart_spec_no_plus [OF clean_kept 2(1)] p0
      by (rule parsePhoneNumber_plain_Success)
    with p len show thesis
      by (intro extension [of p0 ep]) simp_all
  next
    case 3
    then show thesis by (rule us)
  next
    case 4
    then show thesis by (rule us)
  qed
qed

text \<open>
  Claim C5. Whenever the parse succeeds, the national number consists of ASCII digits
  only, the country code is non-empty and begins with \<open>+\<close>, and the extension, when there
  is one, consists of ASCII digits only and has between 1 and 5 of them.
\<close>

theorem parse_success_invariants:
  assumes "parsePhoneNumber input = Success p"
  shows "(\<forall>c\<in>set (nationalNumber p). isDigit c)
       \<and> countryCode p \<noteq> [] \<and> hd (countryCode p) = CHR ''+''
       \<and> (\<forall>e. extension p = Some e \<longrightarrow>
              (\<forall>c\<in>set e. isDigit c) \<and> 1 \<le> length e \<and> length e \<le> 5)"
  using assms
proof (cases rule: parsePhoneNumber_Success_cases)
  case international
  from parseInternationalNumber_Success [OF this] obtain n
    where "countryCode p = ''+'' @ slice (stripNonDigits (clean input)) 0 n"
      and "nationalNumber p = sliceFrom (stripNonDigits (clean input)) n"
      and "extension p = None"
    by blast
  then show ?thesis
    by (auto simp: sliceFrom_def stripNonDigits_def dest: in_set_dropD)
next
  case (us u)
  then show ?thesis
    by (simp add: parseUSNumber_Success stripNonDigits_def)
next
  case (extension p0 ep)
  then show ?thesis
    by (simp add: stripNonDigits_def)
qed

theorem parse_success_invariants_witness:
  "parsePhoneNumber ''555-234-5678 x 89'' =
     Success \<lparr>countryCode = ''+1'', nationalNumber = ''5552345678'', extension = Some ''89'',
              formatted = ''(555) 234-5678 ext. 89''\<rparr>
   \<and> list_all isDigit ''5552345678'' \<and> hd ''+1'' = CHR ''+''
   \<and> list_all isDigit ''89'' \<and> 1 \<le> length ''89'' \<and> length ''89'' \<le> 5"
proof -
  have a: "parsePhoneNumber ''555-234-5678 x 89'' =
     Success \<lparr>countryCode = ''+1'', nationalNumber = ''5552345678'', extension = Some ''89'',
              formatted = ''(555) 234-5678 ext. 89''\<rparr>"
    by code_simp
  from parse_success_invariants [OF a] a show ?thesis
    by (simp add: list_all_iff)
qed

text \<open>
  Claim C8. Whenever the parse succeeds with an extension, the country code is \<open>+1\<close>.
  A cleaned string that starts with \<open>+\<close> goes to the international parser, whose results
  carry no extension; the number in front of an extension is parsed by the US/Canada
  parser only.
\<close>

theorem extension_implies_us:
  assumes "parsePhoneNumber input = Success p"
  shows "(startsWith (clean input) ''+'' \<longrightarrow> extension p = None)
       \<and> (\<forall>e. extension p = Some e \<longrightarrow> countryCode p = ''+1'')"
proof
  show "startsWith (clean input) ''+'' \<longrightarrow> extension p = None"
  proof
    assume "startsWith (clean input) ''+''"
    with assms have "parseInternationalNumber (clean input) = Success p"
      unfolding parsePhoneNumber_routes by (simp split: if_splits)
    from parseInternationalNumber_Success [OF this] show "extension p = None"
      by blast
  qed
next
  from assms show "\<forall>e. extension p = Some e \<longrightarrow> countryCode p = ''+1''"
  proof (cases rule: parsePhoneNumber_Success_cases)
    case international
    from parseInternationalNumber_Success [OF this] show ?thesis
      by auto
  next
    case (us u)
    then show ?thesis
      by (simp add: parseUSNumber_Success)
  next
    case (extension p0 ep)
    then show ?thesis
      by simp
  qed
qed

theorem extension_implies_us_witness:
  "parsePhoneNumber ''(555) 234-5678 x89'' =
     Success \<lparr>countryCode = ''+1'', nationalNumber = ''5552345678'', extension = Some ''89'',
              formatted = ''(555) 234-5678 ext. 89''\<rparr>
   \<and> parsePhoneNumber ''+44 20 7123 4567'' =
     Success \<lparr>countryCode = ''+44'', nationalNumber = ''2071234567'', extension = None,
              formatted = ''+44 2071234567''\<rparr>"
proof -
  have a: "parsePhoneNumber ''(555) 234-5678 x89'' =
     Success \<lparr>countryCode = ''+1'', nationalNumber = ''5552345678'', extension = Some ''89'',
              formatted = ''(555) 234-5678 ext. 89''\<rparr>"
    by code_simp
  have b: "parsePhoneNumber ''+44 20 7123 4567'' =
     Success \<lparr>countryCode = ''+44'', nationalNumber = ''2071234567'', extension = None,
              formatted = ''+44 2071234567''\<rparr>"
    by code_simp
  from extension_implies_us [OF a] extension_implies_us [OF b] a b show ?thesis
    by simp
qed

lemma parseNumberWithExtension_depth_eq:
  assumes "\<forall>c\<in>set s. keptChar c" and "\<not> startsWith s ''+''"
  shows "parseNumberWithExtension_depth (Suc n) s = Some (parseNumberWithExtension s)"
proof (cases "CHR ''x'' \<in> set (toLowerCase s)")
  case False
  then show ?thesis
    by (simp add: parseNumberWithExtension_no_x parseNumberWithExtension_depth_no_x)
next
  case True
  then obtain ep where ep: "extensionPart s = Some ep"
    by (simp add: extensionPart_eq)
  have inner: "parsePhoneNumber_depth (Suc n) (numberPart_spec s)
                 = Some (parsePhoneNumber (numberPart_spec s))"
    using numberPart_spec_plain [OF assms(1)] numberPart_spec_no_plus [OF assms]
    by (rule parsePhoneNumber_depth_plain)
  show ?thesis
    unfolding parseNumberWithExtension_parts [OF numberPart_Some ep]
      parseNumberWithExtension_depth_parts [OF numberPart_Some ep] inner
    by (simp split: PhoneNumberParseResult.splits)
qed

text \<open>
  Claim C10. The parse returns on every input, with at most two nested activations of
  \<open>parsePhoneNumber\<close>: a budget of two gives the result of \<open>parsePhoneNumber\<close>, whose
  definition above is total by its termination proof. The string passed to the recursive
  call contains no \<open>x\<close>, and neither does its cleaned, lower-cased form, so the call
  does not take the extension path again.
\<close>

theorem parse_depth_two:
  "parsePhoneNumber_depth 2 input = Some (parsePhoneNumber input)
   \<and> CHR ''x'' \<notin> set (str (numberPart (clean input)))
   \<and> \<not> includes_js (toLowerCase (clean (str (numberPart (clean input))))) CHR ''x''"
proof -
  have two: "2 = Suc (Suc 0)"
    by simp
  have "\<not> startsWith (clean input) ''+'' \<Longrightarrow>
          parseNumberWithExtension_depth (Suc 0) (clean input)
            = Some (parseNumberWithExtension (clean input))"
    using clean_kept by (rule parseNumberWithExtension_depth_eq)
  then have "parsePhoneNumber_depth 2 input = Some (parsePhoneNumber input)"
    unfolding two parsePhoneNumber_depth_routes parsePhoneNumber_routes by simp
  moreover have plain: "\<forall>a\<in>set (numberPart_spec (clean input)). isDigit a \<or> a = CHR ''+''"
    using clean_kept by (rule numberPart_spec_plain)
  then have "\<not> includes_js (numberPart_spec (clean input)) CHR ''x''"
    by (rule plain_no_x)
  ultimately show ?thesis
    using plain by (simp add: str_numberPart clean_plain toLowerCase_plain includes_js_def)
qed

theorem parse_depth_two_witness:
  "parsePhoneNumber_depth 2 ''555-234-5678 x 89'' =
     Some (Success \<lparr>countryCode = ''+1'', nationalNumber = ''5552345678'',
                    extension = Some ''89'', formatted = ''(555) 234-5678 ext. 89''\<rparr>)
   \<and> parsePhoneNumber_depth 1 ''555-234-5678 x 89'' = None"
proof -
  have "parsePhoneNumber ''555-234-5678 x 89'' =
     Success \<lparr>countryCode = ''+1'', nationalNumber = ''5552345678'', extension = Some ''89'',
              formatted = ''(555) 234-5678 ext. 89''\<rparr>"
    by code_simp
  moreover have "parsePhoneNumber_depth 1 ''555-234-5678 x 89'' = None"
    by code_simp
  ultimately show ?thesis
    using parse_depth_two [of "''555-234-5678 x 89''"] by simp
qed

end
